theory Spec2Isabelle
  imports Complex_Main "HOL-Library.Multiset"
begin

section \<open>Strings\<close>

text \<open>
  A JavaScript string is modelled as a \<^typ>\<open>string\<close> of ASCII characters. The source's
  library functions on strings are written out for that range: \<^verbatim>\<open>toLowerCase\<close> and
  \<^verbatim>\<open>toUpperCase\<close> change the 26 letters only, and the white space of \<^verbatim>\<open>\s\<close> and of
  \<^verbatim>\<open>trim\<close> is tab, line feed, vertical tab, form feed, carriage return and space.
\<close>

definition is_digit :: "char \<Rightarrow> bool" where
  "is_digit c \<longleftrightarrow> 48 \<le> (of_char c :: nat) \<and> (of_char c :: nat) \<le> 57"

definition is_space :: "char \<Rightarrow> bool" where
  "is_space c \<longleftrightarrow> (9 \<le> (of_char c :: nat) \<and> (of_char c :: nat) \<le> 13) \<or> (of_char c :: nat) = 32"

definition is_upper :: "char \<Rightarrow> bool" where
  "is_upper c \<longleftrightarrow> 65 \<le> (of_char c :: nat) \<and> (of_char c :: nat) \<le> 90"

definition is_lower :: "char \<Rightarrow> bool" where
  "is_lower c \<longleftrightarrow> 97 \<le> (of_char c :: nat) \<and> (of_char c :: nat) \<le> 122"

definition lower_char :: "char \<Rightarrow> char" where
  "lower_char c = (if is_upper c then char_of ((of_char c :: nat) + 32) else c)"

definition upper_char :: "char \<Rightarrow> char" where
  "upper_char c = (if is_lower c then char_of ((of_char c :: nat) - 32) else c)"

definition toLowerCase :: "string \<Rightarrow> string" where
  "toLowerCase s = map lower_char s"

definition toUpperCase :: "string \<Rightarrow> string" where
  "toUpperCase s = map upper_char s"

definition trim :: "string \<Rightarrow> string" where
  "trim s = rev (dropWhile is_space (rev (dropWhile is_space s)))"

text \<open>\<^verbatim>\<open>sub\<close> at the head of \<^verbatim>\<open>s\<close>: the rest of \<^verbatim>\<open>s\<close> behind it.\<close>

fun strip_prefix :: "string \<Rightarrow> string \<Rightarrow> string option" where
  "strip_prefix [] s = Some s"
| "strip_prefix (p # ps) [] = None"
| "strip_prefix (p # ps) (c # cs) = (if p = c then strip_prefix ps cs else None)"

text \<open>\<^verbatim>\<open>s.includes(sub)\<close>\<close>

fun str_includes :: "string \<Rightarrow> string \<Rightarrow> bool" where
  "str_includes [] sub = (sub = [])"
| "str_includes (c # cs) sub = (strip_prefix sub (c # cs) \<noteq> None \<or> str_includes cs sub)"

text \<open>\<^verbatim>\<open>s.padStart(2, '0')\<close>\<close>

definition padStart2 :: "string \<Rightarrow> string" where
  "padStart2 s = replicate (2 - length s) (CHR ''0'') @ s"

text \<open>The decimal numeral of a number, as a template literal prints it.\<close>

definition digit_char :: "nat \<Rightarrow> char" where
  "digit_char d = char_of (48 + d)"

fun show_nat :: "nat \<Rightarrow> string" where
  "show_nat n = (if n < 10 then [digit_char n] else show_nat (n div 10) @ [digit_char (n mod 10)])"

declare show_nat.simps [simp del]

section \<open>Regular expressions by backtracking\<close>

text \<open>
  A piece of a regular expression maps the input at the current position to the list of
  the ways it can match there, in the order in which the backtracking matcher tries them;
  each way is the input that remains (with the text of a capture group where the source
  reads one). The match the source sees is the first way of the whole expression.
\<close>

text \<open>A literal.\<close>

definition lit :: "string \<Rightarrow> string \<Rightarrow> string list" where
  "lit p s = (case strip_prefix p s of None \<Rightarrow> [] | Some r \<Rightarrow> [r])"

text \<open>\<^verbatim>\<open>\s*\<close>, greedy: the longest run first.\<close>

fun star_space :: "string \<Rightarrow> string list" where
  "star_space [] = [[]]"
| "star_space (c # cs) = (if is_space c then star_space cs @ [c # cs] else [c # cs])"




text \<open>\<^verbatim>\<open>(\d{1,2})\<close>, greedy, with the digits captured.\<close>

definition digits_1_2 :: "string \<Rightarrow> (string \<times> string) list" where
  "digits_1_2 s =
     (case s of [] \<Rightarrow> []
      | a # r \<Rightarrow>
          if is_digit a then
            (case r of [] \<Rightarrow> [] | b # r' \<Rightarrow> if is_digit b then [([a, b], r')] else []) @ [([a], r)]
          else [])"

text \<open>The first way of a list of ways.\<close>

definition first_match :: "'a list \<Rightarrow> 'a option" where
  "first_match ws = (case ws of [] \<Rightarrow> None | w # _ \<Rightarrow> Some w)"

section \<open>Date Normalizer\<close>

text \<open>
  \<^verbatim>\<open>parseFlexibleDate\<close> of \<^verbatim>\<open>handleSendMessage\<close>. The current year and the generic
  parser \<^verbatim>\<open>new Date(dateStr)\<close> belong to the JavaScript runtime and are parameters:
  \<^verbatim>\<open>genericDate s\<close> is what \<^verbatim>\<open>new Date(s)\<close> followed by
  \<^verbatim>\<open>toISOString().split('T')[0]\<close> does on \<^verbatim>\<open>s\<close>.
\<close>

datatype js_date = DateThrows | InvalidDate | ValidDate string

text \<open>\<^verbatim>\<open>/^\d{4}-\d{2}-\d{2}$/\<close>\<close>

fun iso_pattern :: "string \<Rightarrow> bool" where
  "iso_pattern [y1, y2, y3, y4, h1, m1, m2, h2, d1, d2] =
     (is_digit y1 \<and> is_digit y2 \<and> is_digit y3 \<and> is_digit y4 \<and> h1 = CHR ''-'' \<and>
      is_digit m1 \<and> is_digit m2 \<and> h2 = CHR ''-'' \<and> is_digit d1 \<and> is_digit d2)"
| "iso_pattern _ = False"

definition monthMap :: "(string \<times> string) list" where
  "monthMap =
     [(''jan'', ''01''), (''january'', ''01''),
      (''feb'', ''02''), (''february'', ''02''),
      (''mar'', ''03''), (''march'', ''03''),
      (''apr'', ''04''), (''april'', ''04''),
      (''may'', ''05''),
      (''jun'', ''06''), (''june'', ''06''),
      (''jul'', ''07''), (''july'', ''07''),
      (''aug'', ''08''), (''august'', ''08''),
      (''sep'', ''09''), (''september'', ''09''),
      (''oct'', ''10''), (''october'', ''10''),
      (''nov'', ''11''), (''november'', ''11''),
      (''dec'', ''12''), (''december'', ''12'')]"

text \<open>The alternatives of the first group of the month pattern, in the order of the source.\<close>

definition month_alternatives :: "string list" where
  "month_alternatives =
     [''jan'', ''january'', ''feb'', ''february'', ''mar'', ''march'', ''apr'', ''april'',
      ''may'', ''jun'', ''june'', ''jul'', ''july'', ''aug'', ''august'', ''sep'', ''september'',
      ''oct'', ''october'', ''nov'', ''november'', ''dec'', ''december'']"

text \<open>\<^verbatim>\<open>(st|nd|rd|th)?\<close>: an alternative in order, or nothing.\<close>

definition opt_suffix :: "string \<Rightarrow> string list" where
  "opt_suffix s = concat (map (\<lambda>x. lit x s) [''st'', ''nd'', ''rd'', ''th'']) @ [s]"

text \<open>
  \<^verbatim>\<open>/^(jan|january|...|december)\s*(\d{1,2})(st|nd|rd|th)?$/\<close>: the ways the pattern matches
  the whole of \<^verbatim>\<open>s\<close>, each with groups 1 and 2.
\<close>

definition month_day_ways :: "string \<Rightarrow> (string \<times> string) list" where
  "month_day_ways s =
     concat (map (\<lambda>m.
       concat (map (\<lambda>r0.
         concat (map (\<lambda>r1.
           concat (map (\<lambda>(d, r2).
             concat (map (\<lambda>r3. if r3 = [] then [(m, d)] else []) (opt_suffix r2)))
           (digits_1_2 r1)))
         (star_space r0)))
       (lit m s)))
     month_alternatives)"

definition parseFlexibleDate :: "nat \<Rightarrow> (string \<Rightarrow> js_date) \<Rightarrow> string \<Rightarrow> string" where
  "parseFlexibleDate currentYear genericDate dateStr =
     (let cleanStr = trim (toLowerCase dateStr) in
      if iso_pattern cleanStr then cleanStr
      else
        (case first_match (month_day_ways cleanStr) of
           Some (m, d) \<Rightarrow>
             (let month = (case map_of monthMap m of Some mm \<Rightarrow> mm | None \<Rightarrow> ''undefined'');
                  day = padStart2 d
              in show_nat currentYear @ ''-'' @ month @ ''-'' @ day)
         | None \<Rightarrow>
             (case genericDate dateStr of
                ValidDate isoDate \<Rightarrow> isoDate
              | InvalidDate \<Rightarrow> dateStr
              | DateThrows \<Rightarrow> dateStr)))"

text \<open>Where the groups of the month pattern are: a member of a list of ways.\<close>

lemma first_match_in: "first_match ws = Some w \<Longrightarrow> w \<in> set ws"
  by (cases ws) (simp_all add: first_match_def)


section \<open>Search Request Builder: the dates\<close>


text \<open>A match of the connector pattern is not empty: the loop of \<^verbatim>\<open>split\<close> ends.\<close>

lemma strip_prefix_iff: "strip_prefix p s = Some r \<longleftrightarrow> s = p @ r"
  by (induction p s rule: strip_prefix.induct) auto

lemma set_lit: "set (lit p s) = {r. s = p @ r}"
  by (cases "strip_prefix p s") (auto simp: lit_def strip_prefix_iff [symmetric])


lemma star_space_self: "r \<in> set (star_space r)"
  by (cases r) simp_all

lemma star_space_sound:
  "r \<in> set (star_space s) \<Longrightarrow> \<exists>w. s = w @ r \<and> (\<forall>c\<in>set w. is_space c)"
proof (induction s)
  case Nil
  then show ?case by simp
next
  case (Cons c cs)
  show ?case
  proof (cases "r = c # cs")
    case True
    then have "c # cs = [] @ r \<and> (\<forall>c\<in>set []. is_space c)" by simp
    then show ?thesis by (rule exI)
  next
    case False
    with Cons.prems have sp: "is_space c" and "r \<in> set (star_space cs)"
      by (simp_all split: if_splits)
    with Cons.IH obtain w where "cs = w @ r" "\<forall>c\<in>set w. is_space c" by blast
    with sp have "c # cs = (c # w) @ r \<and> (\<forall>c\<in>set (c # w). is_space c)" by simp
    then show ?thesis by (rule exI)
  qed
qed



lemma in_concat_map: "x \<in> set (concat (map f xs)) \<longleftrightarrow> (\<exists>y\<in>set xs. x \<in> set (f y))"
  by auto





section \<open>Flight Ranking\<close>

text \<open>
  Modelled from the spec: the type \<^verbatim>\<open>Flight\<close> of \<^verbatim>\<open>@/types\<close> is not among the sources. An offer
  has an id, a provider, a numeric price, a duration string and a count of stops; the
  duration may be absent, as the code reads it with \<^verbatim>\<open>?.\<close>. Numbers are exact: prices are
  rationals and minutes are natural numbers, without the rounding of double-precision
  floats.
\<close>

record flight =
  flight_id :: string
  provider :: string
  price :: rat
  duration :: "string option"
  stops :: nat



text \<open>The number a run of decimal digits writes; 0 for the empty run.\<close>

definition nat_of_digits :: "string \<Rightarrow> nat" where
  "nat_of_digits ds = foldl (\<lambda>a c. 10 * a + ((of_char c :: nat) - 48)) 0 ds"








section \<open>Slot-Filling Dialogue Engine: the completion call\<close>

text \<open>\<^verbatim>\<open>FlightBookingOutputSchema\<close>\<close>

record flight_details =
  fd_destination :: "string option"
  fd_origin :: "string option"
  fd_dates :: "string option"
  fd_passengers :: "rat option"

record booking_output =
  reply :: string
  isFlightDetailsComplete :: bool
  flightDetails :: "flight_details option"

text \<open>What the completion call throws: \<^verbatim>\<open>error?.status\<close> and \<^verbatim>\<open>error?.message\<close>.\<close>

record api_error =
  status :: "int option"
  message :: "string option"

datatype completion = Output booking_output | Throws api_error

text \<open>The state of the loop: \<^verbatim>\<open>lastError\<close>, the calls made so far and the delays waited (ms).\<close>

record flow_state =
  lastError :: "api_error option"
  calls :: nat
  delays :: "nat list"

definition maxRetries :: nat where
  "maxRetries = 2"

text \<open>\<^verbatim>\<open>error?.status === n\<close> and \<^verbatim>\<open>error?.message?.includes(sub)\<close>\<close>

definition status_is :: "api_error \<Rightarrow> int \<Rightarrow> bool" where
  "status_is e n \<longleftrightarrow> status e = Some n"

definition message_includes :: "api_error \<Rightarrow> string \<Rightarrow> bool" where
  "message_includes e sub \<longleftrightarrow> (case message e of None \<Rightarrow> False | Some m \<Rightarrow> str_includes m sub)"

text \<open>
  The \<^verbatim>\<open>for\<close> loop of \<^verbatim>\<open>flightBookingAssistantFlow\<close>; \<^verbatim>\<open>prompt attempt\<close> is what the
  completion call of that attempt does. The result is the output returned from inside the
  loop, if any, and the state at the exit.
\<close>

function retry_loop :: "(nat \<Rightarrow> completion) \<Rightarrow> nat \<Rightarrow> flow_state \<Rightarrow> booking_output option \<times> flow_state" where
  "retry_loop prompt attempt st =
     (if attempt \<le> maxRetries then
        (case prompt attempt of
           Output out \<Rightarrow> (Some out, st\<lparr>calls := calls st + 1\<rparr>)
         | Throws error \<Rightarrow>
             (let st1 = st\<lparr>lastError := Some error, calls := calls st + 1\<rparr> in
              if status_is error 429 \<or> status_is error 401 \<or> status_is error 403 then (None, st1)
              else
                (let st2 =
                   (if attempt < maxRetries \<and> (status_is error 503 \<or> message_includes error ''overloaded'')
                    then st1\<lparr>delays := delays st1 @ [attempt * 1000]\<rparr> else st1)
                 in retry_loop prompt (attempt + 1) st2)))
      else (None, st))"
  by pat_completeness auto
termination
  by (relation "measure (\<lambda>(prompt, attempt, st). maxRetries + 1 - attempt)") auto

declare retry_loop.simps [simp del]

text \<open>The fixed replies; a character outside ASCII is written as its UTF-8 bytes.\<close>

definition robot :: string where "robot = [CHR 0xF0, CHR 0x9F, CHR 0xA4, CHR 0x96]"
definition airplane :: string where "airplane = [CHR 0xE2, CHR 0x9C, CHR 0x88, CHR 0xEF, CHR 0xB8, CHR 0x8F]"
definition bar_chart :: string where "bar_chart = [CHR 0xF0, CHR 0x9F, CHR 0x93, CHR 0x8A]"
definition key_sign :: string where "key_sign = [CHR 0xF0, CHR 0x9F, CHR 0x94, CHR 0x91]"
definition high_voltage :: string where "high_voltage = [CHR 0xE2, CHR 0x9A, CHR 0xA1]"

definition overloaded_reply :: string where
  "overloaded_reply = robot @ '' Google's AI service is experiencing high demand right now. Please try again in a moment.'' @ [CHR 0x0A, CHR 0x0A] @ airplane @ '' Good news: Flight search is still working perfectly! You can search for flights while the AI recovers.''"

definition quota_reply :: string where
  "quota_reply = bar_chart @ '' I've reached my API usage limit for now. Please try again in a few minutes.'' @ [CHR 0x0A, CHR 0x0A] @ airplane @ '' Flight search is still available while we wait!''"

definition auth_reply :: string where
  "auth_reply = key_sign @ '' There's an API authentication issue. Please check your Google AI API key configuration.'' @ [CHR 0x0A, CHR 0x0A] @ airplane @ '' Flight search functionality is still working!''"

definition generic_reply :: string where
  "generic_reply = high_voltage @ '' I encountered a temporary issue, but I'm still here to help!'' @ [CHR 0x0A, CHR 0x0A] @ airplane @ '' Flight search is working perfectly - please try searching for flights!''"

definition fallback :: "string \<Rightarrow> booking_output" where
  "fallback text = \<lparr>reply = text, isFlightDetailsComplete = False, flightDetails = None\<rparr>"

text \<open>The replies after the loop; \<^verbatim>\<open>lastError?.status\<close> of an undefined \<^verbatim>\<open>lastError\<close> is undefined.\<close>

definition error_reply :: "api_error option \<Rightarrow> booking_output" where
  "error_reply lastErr =
     (let is_status = (\<lambda>n. case lastErr of None \<Rightarrow> False | Some e \<Rightarrow> status_is e n);
          msg_has = (\<lambda>sub. case lastErr of None \<Rightarrow> False | Some e \<Rightarrow> message_includes e sub)
      in if is_status 503 \<or> msg_has ''overloaded'' then fallback overloaded_reply
         else if is_status 429 \<or> msg_has ''quota'' then fallback quota_reply
         else if is_status 401 \<or> is_status 403 then fallback auth_reply
         else fallback generic_reply)"

definition initial_state :: flow_state where
  "initial_state = \<lparr>lastError = None, calls = 0, delays = []\<rparr>"

definition flightBookingAssistantFlow :: "(nat \<Rightarrow> completion) \<Rightarrow> booking_output \<times> flow_state" where
  "flightBookingAssistantFlow prompt =
     (case retry_loop prompt 1 initial_state of
        (Some out, st) \<Rightarrow> (out, st)
      | (None, st) \<Rightarrow> (error_reply (lastError st), st))"

section \<open>Flight Lookup Gateway: the route\<close>

text \<open>
  A JSON value. An object is the list of its members; where a name is repeated, the first
  entry is the member.
\<close>

datatype json = JNull | JBool bool | JNum rat | JStr string | JArr "json list" | JObj "(string \<times> json) list"

text \<open>A JavaScript value read from JSON, or \<^verbatim>\<open>undefined\<close> (\<^verbatim>\<open>None\<close>).\<close>

type_synonym js_value = "json option"

datatype exn = SyntaxError | TypeError | ProcessError "int option" string

text \<open>\<^verbatim>\<open>v.key\<close>: a \<^verbatim>\<open>TypeError\<close> on \<^verbatim>\<open>null\<close>, \<^verbatim>\<open>undefined\<close> where \<^verbatim>\<open>v\<close> has no such property.\<close>

fun get_prop :: "json \<Rightarrow> string \<Rightarrow> exn + js_value" where
  "get_prop JNull key = Inl TypeError"
| "get_prop (JObj members) key = Inr (map_of members key)"
| "get_prop _ key = Inr None"

text \<open>\<^verbatim>\<open>!v\<close> is \<^verbatim>\<open>\<not> truthy v\<close>.\<close>

fun truthy :: "js_value \<Rightarrow> bool" where
  "truthy None = False"
| "truthy (Some JNull) = False"
| "truthy (Some (JBool b)) = b"
| "truthy (Some (JNum n)) = (n \<noteq> 0)"
| "truthy (Some (JStr s)) = (s \<noteq> [])"
| "truthy (Some (JArr xs)) = True"
| "truthy (Some (JObj members)) = True"

fun isArray :: "js_value \<Rightarrow> bool" where
  "isArray (Some (JArr xs)) = True"
| "isArray _ = False"

text \<open>An object literal as it is serialised: a member whose value is \<^verbatim>\<open>undefined\<close> is left out.\<close>

definition object :: "(string \<times> js_value) list \<Rightarrow> json" where
  "object members = JObj (concat (map (\<lambda>(k, v). case v of None \<Rightarrow> [] | Some j \<Rightarrow> [(k, j)]) members))"

text \<open>\<^verbatim>\<open>v.slice(0, 3).toUpperCase()\<close> of a value that passed the truthiness check.\<close>

fun code_of :: "json \<Rightarrow> exn + json" where
  "code_of (JStr s) = Inr (JStr (toUpperCase (take 3 s)))"
| "code_of _ = Inl TypeError"

text \<open>
  What the lookup process does with the payload on its input: it cannot be started, or it
  closes with an exit code (none when a signal ended it), its output and its diagnostic
  output. The output is held as what \<^verbatim>\<open>JSON.parse\<close> makes of it: \<^verbatim>\<open>None\<close> where it throws.
\<close>

datatype process = SpawnError | Closed "int option" "json option" string

record response =
  http_status :: nat
  body :: json

text \<open>The text the promise resolves to when the process cannot be started, as \<^verbatim>\<open>JSON.parse\<close> reads it.\<close>

definition unavailable_output :: "json option" where
  "unavailable_output = Some (JObj [(''flights'', JArr []), (''error'', JStr ''Python environment not available'')])"

definition mockFlights :: "json \<Rightarrow> json \<Rightarrow> exn + json list" where
  "mockFlights origin destination =
     (case code_of origin of Inl e \<Rightarrow> Inl e | Inr originCode \<Rightarrow>
      case code_of destination of Inl e \<Rightarrow> Inl e | Inr destinationCode \<Rightarrow>
        Inr [JObj [
          (''id'', JStr ''api_1''),
          (''provider'', JStr ''Live Search Demo''),
          (''airline'', JStr ''Demo Airlines''),
          (''price'', JNum 650),
          (''duration'', JStr ''14h 30m''),
          (''stops'', JNum 1),
          (''stopDetails'', JStr ''1 stop''),
          (''from'', JObj [(''code'', originCode), (''time'', JStr ''10:30''), (''airport'', origin)]),
          (''to'', JObj [(''code'', destinationCode), (''time'', JStr ''09:00''), (''airport'', destination)]),
          (''legs'', JArr [JObj [
            (''airline'', JStr ''Demo Airlines''),
            (''airlineLogoUrl'', JStr ''https://picsum.photos/40/40?random=99''),
            (''departureTime'', JStr ''10:30''),
            (''arrivalTime'', JStr ''09:00''),
            (''duration'', JStr ''14h 30m''),
            (''stops'', JStr ''1 stop''),
            (''fromCode'', originCode),
            (''toCode'', destinationCode)]])]])"

text \<open>The \<^verbatim>\<open>search_params\<close> literal of both branches.\<close>

definition search_params :: "js_value \<Rightarrow> js_value \<Rightarrow> js_value \<Rightarrow> js_value \<Rightarrow> js_value \<Rightarrow> json" where
  "search_params origin destination departureDate returnDate passengers =
     object [(''origin'', origin), (''destination'', destination), (''departureDate'', departureDate),
             (''returnDate'', returnDate), (''passengers'', passengers)]"

text \<open>The \<^verbatim>\<open>catch (parseError)\<close> block.\<close>

definition demo_results :: "js_value \<Rightarrow> js_value \<Rightarrow> js_value \<Rightarrow> js_value \<Rightarrow> js_value \<Rightarrow> exn + json" where
  "demo_results origin destination departureDate returnDate passengers =
     (case (origin, destination) of
        (Some orig, Some dest) \<Rightarrow>
          (case mockFlights orig dest of
             Inl e \<Rightarrow> Inl e
           | Inr flights \<Rightarrow>
               Inr (object [
                 (''flights'', Some (JArr flights)),
                 (''total_results'', Some (JNum (of_nat (length flights)))),
                 (''search_params'', Some (search_params origin destination departureDate returnDate passengers)),
                 (''note'', Some (JStr ''Demo results - real flight search is being configured''))]))
      | _ \<Rightarrow> Inl TypeError)"

text \<open>The inner \<^verbatim>\<open>try\<close> of the route: \<^verbatim>\<open>finalResults\<close> from the output of the process.\<close>

definition final_results ::
  "json option \<Rightarrow> js_value \<Rightarrow> js_value \<Rightarrow> js_value \<Rightarrow> js_value \<Rightarrow> js_value \<Rightarrow> exn + json" where
  "final_results stdout origin destination departureDate returnDate passengers =
     (case stdout of
        None \<Rightarrow> demo_results origin destination departureDate returnDate passengers
      | Some parsed \<Rightarrow>
          (case get_prop parsed ''flights'' of
             Inl e \<Rightarrow> demo_results origin destination departureDate returnDate passengers
           | Inr flights \<Rightarrow>
               if \<not> truthy flights \<or> \<not> isArray flights then
                 Inr (object [
                   (''flights'', Some (case parsed of JArr xs \<Rightarrow> JArr xs | _ \<Rightarrow> JArr [])),
                   (''total_results'', Some (case parsed of JArr xs \<Rightarrow> JNum (of_nat (length xs)) | _ \<Rightarrow> JNum 0)),
                   (''search_params'', Some (search_params origin destination departureDate returnDate passengers))])
               else Inr parsed))"

text \<open>The promise around the process: what \<^verbatim>\<open>await\<close> gives, or the rejection.\<close>

definition await_results :: "process \<Rightarrow> exn + json option" where
  "await_results p =
     (case p of
        SpawnError \<Rightarrow> Inr unavailable_output
      | Closed code stdout stderr \<Rightarrow>
          if code \<noteq> Some 0 then Inl (ProcessError code stderr) else Inr stdout)"

text \<open>A name destructured from the request body, which is not \<^verbatim>\<open>null\<close>.\<close>

definition member :: "json \<Rightarrow> string \<Rightarrow> js_value" where
  "member payload key = (case get_prop payload key of Inl e \<Rightarrow> None | Inr v \<Rightarrow> v)"

text \<open>The payload written to the input of the lookup process, before \<^verbatim>\<open>JSON.stringify\<close>.\<close>

definition searchData :: "json \<Rightarrow> json" where
  "searchData payload =
     object [
       (''origin'', member payload ''origin''),
       (''destination'', member payload ''destination''),
       (''departureDate'', member payload ''departureDate''),
       (''returnDate'', member payload ''returnDate''),
       (''passengers'',
          if truthy (member payload ''passengers'') then member payload ''passengers''
          else Some (JNum 1)),
       (''googleFlightsUrl'', member payload ''googleFlightsUrl'')]"

text \<open>
  The outer \<^verbatim>\<open>try\<close> block of \<^verbatim>\<open>POST\<close>. \<^verbatim>\<open>request\<close> is the body as \<^verbatim>\<open>request.json()\<close> reads
  it (\<^verbatim>\<open>None\<close> where it throws) and \<^verbatim>\<open>run\<close> is the lookup process on its payload. The second
  component counts the processes spawned.
\<close>

definition POST_try :: "(json \<Rightarrow> process) \<Rightarrow> json option \<Rightarrow> (exn + response) \<times> nat" where
  "POST_try run request =
     (case request of
        None \<Rightarrow> (Inl SyntaxError, 0)
      | Some JNull \<Rightarrow> (Inl TypeError, 0)
      | Some payload \<Rightarrow>
          (let origin = member payload ''origin''; destination = member payload ''destination'';
               departureDate = member payload ''departureDate'';
               returnDate = member payload ''returnDate'';
               passengers = member payload ''passengers''
           in
           if \<not> truthy origin \<or> \<not> truthy destination \<or> \<not> truthy departureDate then
             (Inr \<lparr>http_status = 400,
                   body = object [(''error'',
                     Some (JStr ''Missing required parameters: origin, destination, departureDate''))]\<rparr>,
              0)
           else
             (case await_results (run (searchData payload)) of
                Inl e \<Rightarrow> (Inl e, 1)
              | Inr stdout \<Rightarrow>
                  (case final_results stdout origin destination departureDate returnDate passengers of
                     Inl e \<Rightarrow> (Inl e, 1)
                   | Inr finalResults \<Rightarrow> (Inr \<lparr>http_status = 200, body = finalResults\<rparr>, 1)))))"

text \<open>\<^verbatim>\<open>POST\<close>: the \<^verbatim>\<open>catch\<close> of the outer \<^verbatim>\<open>try\<close> answers every exception.\<close>

definition POST :: "(json \<Rightarrow> process) \<Rightarrow> json option \<Rightarrow> response \<times> nat" where
  "POST run request =
     (case POST_try run request of
        (Inr resp, spawned) \<Rightarrow> (resp, spawned)
      | (Inl e, spawned) \<Rightarrow>
          (\<lparr>http_status = 500,
            body = object [(''error'', Some (JStr ''Internal server error'')), (''flights'', Some (JArr []))]\<rparr>,
           spawned))"

section \<open>Notions of the statements\<close>

text \<open>
  A valid ISO calendar date: the shape \<^verbatim>\<open>YYYY-MM-DD\<close> with a month from 1 to 12 and a day
  that the month has in that year.
\<close>

definition leap_year :: "nat \<Rightarrow> bool" where
  "leap_year y \<longleftrightarrow> (y mod 4 = 0 \<and> y mod 100 \<noteq> 0) \<or> y mod 400 = 0"

definition days_in_month :: "nat \<Rightarrow> nat \<Rightarrow> nat" where
  "days_in_month y m =
     (if m = 2 then (if leap_year y then 29 else 28)
      else if m = 4 \<or> m = 6 \<or> m = 9 \<or> m = 11 then 30 else 31)"

definition valid_iso_date :: "string \<Rightarrow> bool" where
  "valid_iso_date s \<longleftrightarrow>
     iso_pattern s \<and>
     (let y = nat_of_digits (take 4 s); m = nat_of_digits (take 2 (drop 5 s));
          d = nat_of_digits (drop 8 s)
      in 1 \<le> m \<and> m \<le> 12 \<and> 1 \<le> d \<and> d \<le> days_in_month y m)"

text \<open>A generic date parser that recognises no text.\<close>

definition unrecognised :: "string \<Rightarrow> js_date" where
  "unrecognised s = InvalidDate"







text \<open>The failures that are not retried.\<close>

definition fail_fast :: "api_error \<Rightarrow> bool" where
  "fail_fast e \<longleftrightarrow> status_is e 429 \<or> status_is e 401 \<or> status_is e 403"

text \<open>A completion service that fails every call in the same way.\<close>

definition always_throws :: "api_error \<Rightarrow> nat \<Rightarrow> completion" where
  "always_throws e attempt = Throws e"

text \<open>A request body that passes the check of the required parameters.\<close>

definition reaches_gateway :: "json \<Rightarrow> bool" where
  "reaches_gateway payload \<longleftrightarrow>
     payload \<noteq> JNull \<and> truthy (member payload ''origin'') \<and>
     truthy (member payload ''destination'') \<and> truthy (member payload ''departureDate'')"

text \<open>The \<^verbatim>\<open>search_params\<close> of a request body.\<close>

definition params_of :: "json \<Rightarrow> json" where
  "params_of payload =
     search_params (member payload ''origin'') (member payload ''destination'')
       (member payload ''departureDate'') (member payload ''returnDate'')
       (member payload ''passengers'')"

text \<open>The list under \<^verbatim>\<open>flights\<close>, where a value has one.\<close>

definition flights_of :: "json \<Rightarrow> json list option" where
  "flights_of v = (case get_prop v ''flights'' of Inr (Some (JArr xs)) \<Rightarrow> Some xs | _ \<Rightarrow> None)"

text \<open>The elements of a bare list; no elements for any other value.\<close>

definition elements_of :: "json \<Rightarrow> json list" where
  "elements_of v = (case v of JArr xs \<Rightarrow> xs | _ \<Rightarrow> [])"



definition lookup_prints :: "json option \<Rightarrow> json \<Rightarrow> process" where
  "lookup_prints out payload = Closed (Some 0) out []"

text \<open>A request body with the three required parameters.\<close>

definition glasgow_chennai :: json where
  "glasgow_chennai =
     JObj [(''origin'', JStr ''Glasgow''), (''destination'', JStr ''Chennai''),
           (''departureDate'', JStr ''2025-09-19'')]"


text \<open>The answer of the outer \<^verbatim>\<open>catch\<close>.\<close>

definition internal_error :: response where
  "internal_error =
     \<lparr>http_status = 500,
      body = JObj [(''error'', JStr ''Internal server error''), (''flights'', JArr [])]\<rparr>"

section \<open>Facts about characters and strings\<close>

lemma digit_not_space: "is_digit c \<Longrightarrow> \<not> is_space c"
  by (auto simp: is_digit_def is_space_def)

lemma digit_lower: "is_digit c \<Longrightarrow> lower_char c = c"
  by (auto simp: is_digit_def lower_char_def is_upper_def)


lemma trim_id: "s \<noteq> [] \<Longrightarrow> \<not> is_space (hd s) \<Longrightarrow> \<not> is_space (last s) \<Longrightarrow> trim s = s"
proof -
  assume a: "s \<noteq> []" "\<not> is_space (hd s)" "\<not> is_space (last s)"
  then have 1: "dropWhile is_space s = s" by (cases s) auto
  from a have "rev s \<noteq> []" "\<not> is_space (hd (rev s))" by (simp_all add: hd_rev)
  then have 2: "dropWhile is_space (rev s) = rev s" by (cases "rev s") auto
  show ?thesis by (simp add: trim_def 1 2)
qed




section \<open>Facts about the pieces of the patterns\<close>

lemma star_space_complete:
  "\<forall>c\<in>set w. is_space c \<Longrightarrow> r \<in> set (star_space (w @ r))"
  by (induction w) (simp_all add: star_space_self)

lemma digits_1_2_sound:
  "(d, r) \<in> set (digits_1_2 s) \<Longrightarrow> s = d @ r \<and> (length d = 1 \<or> length d = 2) \<and> (\<forall>c\<in>set d. is_digit c)"
  by (cases s; cases "tl s") (auto simp: digits_1_2_def split: if_splits)

lemma digits_1_2_complete:
  assumes "length d = 1 \<or> length d = 2" "\<forall>c\<in>set d. is_digit c"
  shows "(d, r) \<in> set (digits_1_2 (d @ r))"
proof -
  from assms(1) consider a where "d = [a]" | a b where "d = [a, b]"
    by (cases d; cases "tl d"; cases "tl (tl d)") auto
  then show ?thesis
  proof cases
    case 1
    with assms(2) show ?thesis by (cases r) (simp_all add: digits_1_2_def)
  next
    case 2
    with assms(2) show ?thesis by (simp add: digits_1_2_def)
  qed
qed

lemma opt_suffix_end: "[] \<in> set (opt_suffix x) \<longleftrightarrow> x \<in> {[], ''st'', ''nd'', ''rd'', ''th''}"
  unfolding opt_suffix_def by (simp add: set_lit) blast


section \<open>The Date Normalizer on ISO dates\<close>

lemma iso_pattern_clean: 
  assumes "iso_pattern s" shows "trim (toLowerCase s) = s"
proof -
  from assms obtain y1 y2 y3 y4 h1 m1 m2 h2 d1 d2 where
    s: "s = [y1, y2, y3, y4, h1, m1, m2, h2, d1, d2]" and
    d: "is_digit y1" "is_digit y2" "is_digit y3" "is_digit y4" "h1 = CHR ''-''"
      "is_digit m1" "is_digit m2" "h2 = CHR ''-''" "is_digit d1" "is_digit d2"
    by (auto elim!: iso_pattern.elims)
  have h: "lower_char (CHR ''-'') = CHR ''-''" by (simp add: lower_char_def is_upper_def)
  have l: "toLowerCase s = s" using d by (simp add: s toLowerCase_def digit_lower h)
  have "trim s = s" by (rule trim_id) (use d in \<open>simp_all add: s digit_not_space\<close>)
  with l show ?thesis by simp
qed



text \<open>
  C8. The Date Normalizer is idempotent on ISO-formatted inputs: an input that already
  matches the pattern of four digits, two digits and two digits is returned unchanged, so
  normalizing it twice gives what normalizing it once gives.
\<close>

theorem iso_date_unchanged:
  "iso_pattern s \<Longrightarrow>
     parseFlexibleDate y g s = s \<and>
     parseFlexibleDate y g (parseFlexibleDate y g s) = parseFlexibleDate y g s"
  by (simp add: parseFlexibleDate_def iso_pattern_clean)

theorem iso_date_unchanged_witness:
  "iso_pattern ''2025-09-25'' \<and>
   parseFlexibleDate 2025 unrecognised ''2025-09-25'' = ''2025-09-25'' \<and>
   parseFlexibleDate 2025 unrecognised (parseFlexibleDate 2025 unrecognised ''2025-09-25'') =
     parseFlexibleDate 2025 unrecognised ''2025-09-25''"
proof -
  have h: "iso_pattern ''2025-09-25''" by (simp add: is_digit_def)
  from iso_date_unchanged [OF h, of 2025 unrecognised] h show ?thesis by blast
qed

section \<open>The Date Normalizer on a month name and a day\<close>


lemma month_alternatives_keys: "month_alternatives = map fst monthMap"
  by (simp add: month_alternatives_def monthMap_def)

lemma monthMap_distinct: "distinct (map fst monthMap)"
  by (simp add: monthMap_def)

lemma monthMap_values: "(m, mm) \<in> set monthMap \<Longrightarrow> length mm = 2 \<and> (\<forall>c\<in>set mm. is_digit c)"
  by (auto simp: monthMap_def is_digit_def)

lemma in_month_day_ways:
  "(m, d) \<in> set (month_day_ways s) \<longleftrightarrow>
     m \<in> set month_alternatives \<and>
     (\<exists>r0 \<in> set (lit m s). \<exists>r1 \<in> set (star_space r0). \<exists>r2.
        (d, r2) \<in> set (digits_1_2 r1) \<and> [] \<in> set (opt_suffix r2))"
  (is "?L \<longleftrightarrow> ?R")
proof -
  have "?L \<longleftrightarrow> (\<exists>m'\<in>set month_alternatives. \<exists>r0\<in>set (lit m' s). \<exists>r1\<in>set (star_space r0).
           \<exists>p\<in>set (digits_1_2 r1). \<exists>r3\<in>set (opt_suffix (snd p)).
             (m, d) \<in> set (if r3 = [] then [(m', fst p)] else []))"
    unfolding month_day_ways_def by (simp only: in_concat_map split_beta)
  also have "\<dots> \<longleftrightarrow> ?R"
    by (auto split: if_splits) (blast, force)
  finally show ?thesis .
qed


lemma month_day_ways_iff:
  "(m, d) \<in> set (month_day_ways s) \<longleftrightarrow>
     m \<in> set month_alternatives \<and>
        (\<exists>w x. s = m @ w @ d @ x \<and> (\<forall>c\<in>set w. is_space c) \<and>
               (length d = 1 \<or> length d = 2) \<and> (\<forall>c\<in>set d. is_digit c) \<and>
               x \<in> {[], ''st'', ''nd'', ''rd'', ''th''})"
  (is "?L \<longleftrightarrow> ?R")
proof
  assume ?L
  then obtain r0 r1 r2 where m: "m \<in> set month_alternatives" and
    r: "r0 \<in> set (lit m s)" "r1 \<in> set (star_space r0)" "(d, r2) \<in> set (digits_1_2 r1)"
       "[] \<in> set (opt_suffix r2)"
    unfolding in_month_day_ways by blast
  from r(1) have 0: "s = m @ r0" by (simp add: set_lit)
  from r(2) obtain w where 1: "r0 = w @ r1" "\<forall>c\<in>set w. is_space c"
    using star_space_sound by blast
  from r(3) have 2: "r1 = d @ r2" "length d = 1 \<or> length d = 2" "\<forall>c\<in>set d. is_digit c"
    using digits_1_2_sound by blast+
  from r(4) have 3: "r2 \<in> {[], ''st'', ''nd'', ''rd'', ''th''}" by (simp only: opt_suffix_end)
  from 0 1 2 3 m show ?R by blast
next
  assume ?R
  then obtain w x where m: "m \<in> set month_alternatives" and
    s: "s = m @ w @ d @ x" "\<forall>c\<in>set w. is_space c" "length d = 1 \<or> length d = 2"
       "\<forall>c\<in>set d. is_digit c" "x \<in> {[], ''st'', ''nd'', ''rd'', ''th''}" by blast
  have 0: "w @ d @ x \<in> set (lit m s)" using s(1) by (simp add: set_lit)
  have 1: "d @ x \<in> set (star_space (w @ d @ x))" using s(2) by (rule star_space_complete)
  have 2: "(d, x) \<in> set (digits_1_2 (d @ x))" using s(3,4) by (rule digits_1_2_complete)
  have 3: "[] \<in> set (opt_suffix x)" using s(5) by (simp only: opt_suffix_end)
  from m 0 1 2 3 show ?L unfolding in_month_day_ways by blast
qed









section \<open>The results of the Date Normalizer\<close>

lemma is_digit_digit_char: "d < 10 \<Longrightarrow> is_digit (digit_char d)"
  by (simp add: is_digit_def digit_char_def)

lemma show_nat_four:
  assumes "1000 \<le> y" "y < 10000"
  shows "\<exists>a b c d. show_nat y = [a, b, c, d] \<and> is_digit a \<and> is_digit b \<and> is_digit c \<and> is_digit d"
proof -
  have r: "\<not> y < 10" "\<not> y div 10 < 10" "\<not> y div 10 div 10 < 10" "y div 10 div 10 div 10 < 10"
    using assms by arith+
  have 1: "show_nat y = show_nat (y div 10) @ [digit_char (y mod 10)]"
    using r(1) by (simp add: show_nat.simps [of y])
  have 2: "show_nat (y div 10) = show_nat (y div 10 div 10) @ [digit_char (y div 10 mod 10)]"
    using r(2) by (simp add: show_nat.simps [of "y div 10"])
  have 3: "show_nat (y div 10 div 10) =
      show_nat (y div 10 div 10 div 10) @ [digit_char (y div 10 div 10 mod 10)]"
    using r(3) by (simp add: show_nat.simps [of "y div 10 div 10"])
  have 4: "show_nat (y div 10 div 10 div 10) = [digit_char (y div 10 div 10 div 10)]"
    using r(4) by (simp add: show_nat.simps [of "y div 10 div 10 div 10"])
  show ?thesis using r(4) by (simp add: 1 2 3 4 is_digit_digit_char)
qed

lemma padStart2_digits:
  assumes "\<forall>c\<in>set d. is_digit c" "length d = 1 \<or> length d = 2"
  shows "\<exists>a b. padStart2 d = [a, b] \<and> is_digit a \<and> is_digit b"
proof -
  from assms(2) consider a where "d = [a]" | a b where "d = [a, b]"
    by (cases d; cases "tl d"; cases "tl (tl d)") auto
  then show ?thesis using assms(1) by cases (auto simp: padStart2_def is_digit_def)
qed

text \<open>
  C9, as the code has it. The Date Normalizer returns a result on every input, also where
  the generic parser throws. With a current year of four digits the result is the original
  string unchanged, the date the generic parser gives, or a text of the ISO shape
  \<^verbatim>\<open>YYYY-MM-DD\<close>; the month and the day of that text are not checked against the calendar.
\<close>

theorem normalizer_result:
  assumes "1000 \<le> y" "y < 10000"
  shows "parseFlexibleDate y g s = s \<or> g s = ValidDate (parseFlexibleDate y g s)
         \<or> iso_pattern (parseFlexibleDate y g s)"
proof (cases "iso_pattern (trim (toLowerCase s))")
  case True
  then show ?thesis by (simp add: parseFlexibleDate_def)
next
  case False
  show ?thesis
  proof (cases "first_match (month_day_ways (trim (toLowerCase s)))")
    case None
    with False show ?thesis by (simp add: parseFlexibleDate_def split: js_date.splits)
  next
    case (Some p)
    obtain m d where p: "p = (m, d)" by (cases p)
    with Some have "(m, d) \<in> set (month_day_ways (trim (toLowerCase s)))"
      by (auto dest: first_match_in)
    then have m: "m \<in> set month_alternatives" and
      d: "\<forall>c\<in>set d. is_digit c" "length d = 1 \<or> length d = 2"
      unfolding month_day_ways_iff by blast+
    from m obtain mm where mm: "(m, mm) \<in> set monthMap"
      by (auto simp: month_alternatives_keys)
    with monthMap_distinct have mo: "map_of monthMap m = Some mm" by (rule map_of_is_SomeI)
    from monthMap_values [OF mm] obtain m1 m2 where m12: "mm = [m1, m2]" "is_digit m1" "is_digit m2"
      by (cases mm; cases "tl mm") auto
    from show_nat_four [OF assms] obtain a b c e where
      yy: "show_nat y = [a, b, c, e]" "is_digit a" "is_digit b" "is_digit c" "is_digit e" by blast
    from padStart2_digits [OF d] obtain d1 d2 where
      dd: "padStart2 d = [d1, d2]" "is_digit d1" "is_digit d2" by blast
    have "parseFlexibleDate y g s = show_nat y @ ''-'' @ mm @ ''-'' @ padStart2 d"
      using False Some p mo by (simp add: parseFlexibleDate_def)
    then have "iso_pattern (parseFlexibleDate y g s)"
      using m12 yy dd by simp
    then show ?thesis by simp
  qed
qed

theorem normalizer_result_witness:
  "parseFlexibleDate 2025 unrecognised ''feb30'' = ''feb30'' \<or>
   unrecognised ''feb30'' = ValidDate (parseFlexibleDate 2025 unrecognised ''feb30'') \<or>
   iso_pattern (parseFlexibleDate 2025 unrecognised ''feb30'')"
proof -
  have "(1000::nat) \<le> 2025" "(2025::nat) < 10000" by simp_all
  then show ?thesis by (rule normalizer_result)
qed

text \<open>
  The claim as it is written fails: \<^verbatim>\<open>feb30\<close> becomes \<^verbatim>\<open>2025-02-30\<close>, which is neither a
  calendar date nor the original string.
\<close>

theorem normalizer_invalid_date:
  "parseFlexibleDate 2025 unrecognised ''feb30'' = ''2025-02-30'' \<and>
   \<not> valid_iso_date ''2025-02-30'' \<and> ''2025-02-30'' \<noteq> ''feb30''"
  by code_simp

section \<open>Splitting a date expression\<close>















section \<open>The duration pattern\<close>














section \<open>The dates of the search request\<close>






section \<open>Ranking\<close>










section \<open>The completion call and its fallback\<close>

lemma retry_loop_3: "retry_loop prompt 3 st = (None, st)"
  by (subst retry_loop.simps) (simp add: maxRetries_def)

lemma retry_loop_2:
  "retry_loop prompt 2 st =
     (case prompt 2 of
        Output out \<Rightarrow> (Some out, st\<lparr>calls := calls st + 1\<rparr>)
      | Throws e \<Rightarrow> (None, st\<lparr>lastError := Some e, calls := calls st + 1\<rparr>))"
  by (subst retry_loop.simps) (simp add: maxRetries_def retry_loop_3 Let_def split: completion.splits)

lemma retry_loop_1:
  "retry_loop prompt 1 st =
     (case prompt 1 of
        Output out \<Rightarrow> (Some out, st\<lparr>calls := calls st + 1\<rparr>)
      | Throws e \<Rightarrow>
          if fail_fast e then (None, st\<lparr>lastError := Some e, calls := calls st + 1\<rparr>)
          else
            (case prompt 2 of
               Output out \<Rightarrow>
                 (Some out, st\<lparr>lastError := Some e, calls := calls st + 2,
                    delays := (if status_is e 503 \<or> message_includes e ''overloaded''
                               then delays st @ [1000] else delays st)\<rparr>)
             | Throws e2 \<Rightarrow>
                 (None, st\<lparr>lastError := Some e2, calls := calls st + 2,
                    delays := (if status_is e 503 \<or> message_includes e ''overloaded''
                               then delays st @ [1000] else delays st)\<rparr>)))"
proof -
  have 2: "Suc (Suc 0) = 2" by simp
  show ?thesis
    by (subst retry_loop.simps)
       (simp add: maxRetries_def 2 retry_loop_2 Let_def fail_fast_def split: completion.splits)
qed

lemma flow_cases:
  "flightBookingAssistantFlow prompt =
     (case prompt 1 of
        Output out \<Rightarrow> (out, \<lparr>lastError = None, calls = 1, delays = []\<rparr>)
      | Throws e \<Rightarrow>
          if fail_fast e then (error_reply (Some e), \<lparr>lastError = Some e, calls = 1, delays = []\<rparr>)
          else
            (case prompt 2 of
               Output out \<Rightarrow>
                 (out, \<lparr>lastError = Some e, calls = 2,
                    delays = (if status_is e 503 \<or> message_includes e ''overloaded'' then [1000] else [])\<rparr>)
             | Throws e2 \<Rightarrow>
                 (error_reply (Some e2), \<lparr>lastError = Some e2, calls = 2,
                    delays = (if status_is e 503 \<or> message_includes e ''overloaded'' then [1000] else [])\<rparr>)))"
  unfolding flightBookingAssistantFlow_def retry_loop_1
  by (simp add: initial_state_def split: completion.splits)

lemma error_reply_fallback:
  "\<not> isFlightDetailsComplete (error_reply le) \<and> flightDetails (error_reply le) = None \<and>
   reply (error_reply le) \<in> {overloaded_reply, quota_reply, auth_reply, generic_reply}"
  by (simp add: error_reply_def fallback_def Let_def)

lemma error_reply_classes:
  "reply (error_reply (Some e)) =
     (if status_is e 503 \<or> message_includes e ''overloaded'' then overloaded_reply
      else if status_is e 429 \<or> message_includes e ''quota'' then quota_reply
      else if status_is e 401 \<or> status_is e 403 then auth_reply
      else generic_reply)"
  by (simp add: error_reply_def fallback_def Let_def)

lemma replies_claim_nothing:
  "\<not> str_includes overloaded_reply ''found''" "\<not> str_includes quota_reply ''found''"
  "\<not> str_includes auth_reply ''found''" "\<not> str_includes generic_reply ''found''"
  by code_simp+

text \<open>
  C6. The flow makes one or two completion calls. A first failure with status 429, 401 or
  403 is not retried. When the last call made has failed, the result has
  \<^verbatim>\<open>isFlightDetailsComplete = false\<close> and no flight details, and its reply is the fixed text of
  the class of that failure (overloaded, quota exceeded, authentication, other), which
  does not contain the word \<^verbatim>\<open>found\<close>.
\<close>

theorem completion_failure_fallback:
  "1 \<le> calls (snd (flightBookingAssistantFlow prompt)) \<and>
   calls (snd (flightBookingAssistantFlow prompt)) \<le> 2 \<and>
   (prompt 1 = Throws e \<and> (status_is e 429 \<or> status_is e 401 \<or> status_is e 403) \<longrightarrow>
      calls (snd (flightBookingAssistantFlow prompt)) = 1) \<and>
   (prompt (calls (snd (flightBookingAssistantFlow prompt))) = Throws e \<longrightarrow>
      \<not> isFlightDetailsComplete (fst (flightBookingAssistantFlow prompt)) \<and>
      flightDetails (fst (flightBookingAssistantFlow prompt)) = None \<and>
      reply (fst (flightBookingAssistantFlow prompt)) =
        (if status_is e 503 \<or> message_includes e ''overloaded'' then overloaded_reply
         else if status_is e 429 \<or> message_includes e ''quota'' then quota_reply
         else if status_is e 401 \<or> status_is e 403 then auth_reply
         else generic_reply) \<and>
      \<not> str_includes (reply (fst (flightBookingAssistantFlow prompt))) ''found'')"
proof (intro conjI impI)
  show "1 \<le> calls (snd (flightBookingAssistantFlow prompt))"
    by (simp add: flow_cases split: completion.splits)
  show "calls (snd (flightBookingAssistantFlow prompt)) \<le> 2"
    by (simp add: flow_cases split: completion.splits)
next
  assume "prompt 1 = Throws e \<and> (status_is e 429 \<or> status_is e 401 \<or> status_is e 403)"
  then show "calls (snd (flightBookingAssistantFlow prompt)) = 1"
    by (simp add: flow_cases fail_fast_def)
next
  assume last: "prompt (calls (snd (flightBookingAssistantFlow prompt))) = Throws e"
  then have r: "fst (flightBookingAssistantFlow prompt) = error_reply (Some e)"
    by (auto simp: flow_cases split: completion.splits if_splits)
  show "\<not> isFlightDetailsComplete (fst (flightBookingAssistantFlow prompt))"
    and "flightDetails (fst (flightBookingAssistantFlow prompt)) = None"
    by (simp_all add: r error_reply_fallback)
  show "reply (fst (flightBookingAssistantFlow prompt)) =
        (if status_is e 503 \<or> message_includes e ''overloaded'' then overloaded_reply
         else if status_is e 429 \<or> message_includes e ''quota'' then quota_reply
         else if status_is e 401 \<or> status_is e 403 then auth_reply
         else generic_reply)"
    by (simp only: r error_reply_classes)
  have "reply (error_reply (Some e)) \<in> {overloaded_reply, quota_reply, auth_reply, generic_reply}"
    using error_reply_fallback [of "Some e"] by blast
  then show "\<not> str_includes (reply (fst (flightBookingAssistantFlow prompt))) ''found''"
    using replies_claim_nothing by (auto simp: r)
qed

theorem completion_failure_fallback_witness:
  "calls (snd (flightBookingAssistantFlow (always_throws \<lparr>status = Some 429, message = Some ''Too Many Requests''\<rparr>))) = 1 \<and>
   \<not> isFlightDetailsComplete (fst (flightBookingAssistantFlow (always_throws \<lparr>status = Some 429, message = Some ''Too Many Requests''\<rparr>))) \<and>
   reply (fst (flightBookingAssistantFlow (always_throws \<lparr>status = Some 429, message = Some ''Too Many Requests''\<rparr>))) = quota_reply"
proof -
  let ?e = "\<lparr>status = Some 429, message = Some ''Too Many Requests''\<rparr>"
  have p: "always_throws ?e 1 = Throws ?e" "\<And>n. always_throws ?e n = Throws ?e"
    by (simp_all add: always_throws_def)
  have s: "status_is ?e 429" "\<not> status_is ?e 503" by (simp_all add: status_is_def)
  have m: "\<not> message_includes ?e ''overloaded''" by code_simp
  from completion_failure_fallback [of "always_throws ?e" ?e] p s m
  show ?thesis by simp
qed

section \<open>The branches of the route\<close>

lemma POST_gateway:
  assumes "reaches_gateway payload"
  shows "POST run (Some payload) =
     (case await_results (run (searchData payload)) of
        Inl e \<Rightarrow> (internal_error, 1)
      | Inr stdout \<Rightarrow>
          (case final_results stdout (member payload ''origin'') (member payload ''destination'')
                  (member payload ''departureDate'') (member payload ''returnDate'')
                  (member payload ''passengers'') of
             Inl e \<Rightarrow> (internal_error, 1)
           | Inr finalResults \<Rightarrow> (\<lparr>http_status = 200, body = finalResults\<rparr>, 1)))"
  using assms
  by (cases payload)
     (simp_all add: reaches_gateway_def POST_def POST_try_def internal_error_def object_def
        split: sum.splits)



lemma flights_of_cases:
  "parsed \<noteq> JNull \<Longrightarrow>
     (case get_prop parsed ''flights'' of Inl e \<Rightarrow> False | Inr v \<Rightarrow> truthy v \<and> isArray v)
       = (flights_of parsed \<noteq> None)"
  by (cases parsed; simp add: flights_of_def split: option.splits json.splits)

lemma final_results_demo:
  "stdout = None \<or> stdout = Some JNull \<Longrightarrow>
     final_results stdout orig dest dep ret pas = demo_results orig dest dep ret pas"
  by (auto simp: final_results_def)

lemma final_results_rewrap:
  assumes "parsed \<noteq> JNull" "flights_of parsed = None"
  shows "final_results (Some parsed) orig dest dep ret pas =
     Inr (JObj [(''flights'', JArr (elements_of parsed)),
                (''total_results'', JNum (of_nat (length (elements_of parsed)))),
                (''search_params'', search_params orig dest dep ret pas)])"
proof -
  from assms(1) obtain v where v: "get_prop parsed ''flights'' = Inr v" by (cases parsed) auto
  with flights_of_cases [OF assms(1)] assms(2) have "\<not> (truthy v \<and> isArray v)" by simp
  with v show ?thesis
    by (cases parsed) (auto simp: final_results_def object_def elements_of_def)
qed




lemma demo_results_total:
  assumes "demo_results orig dest dep ret pas = Inr r"
  shows "\<exists>fl. flights_of r = Some fl \<and>
           get_prop r ''total_results'' = Inr (Some (JNum (of_nat (length fl))))"
proof -
  from assms obtain fl where
    "r = JObj [(''flights'', JArr fl), (''total_results'', JNum (of_nat (length fl))),
               (''search_params'', search_params orig dest dep ret pas),
               (''note'', JStr ''Demo results - real flight search is being configured'')]"
    by (auto simp: demo_results_def object_def split: option.splits sum.splits)
  then show ?thesis by (simp add: flights_of_def)
qed




section \<open>The answers of the route\<close>

lemma await_results_cases:
  "await_results SpawnError = Inr unavailable_output"
  "await_results (Closed (Some 0) out err) = Inr out"
  "code \<noteq> Some 0 \<Longrightarrow> await_results (Closed code out err) = Inl (ProcessError code err)"
  by (simp_all add: await_results_def)








text \<open>
  C10. When the output of the lookup process does not parse, or parses to a value whose
  \<^verbatim>\<open>flights\<close> is missing or not a list, the \<^verbatim>\<open>total_results\<close> of the body returned with
  status 200 is the length of its \<^verbatim>\<open>flights\<close> list.
\<close>

theorem total_results_is_length:
  assumes "reaches_gateway payload" and "run (searchData payload) = Closed (Some 0) stdout err"
    and "\<forall>parsed. stdout = Some parsed \<longrightarrow> flights_of parsed = None"
    and "POST run (Some payload) = (resp, n)" and "http_status resp = 200"
  shows "\<exists>fl. flights_of (body resp) = Some fl \<and>
           get_prop (body resp) ''total_results'' = Inr (Some (JNum (of_nat (length fl))))"
proof -
  let ?final = "final_results stdout (member payload ''origin'') (member payload ''destination'')
      (member payload ''departureDate'') (member payload ''returnDate'') (member payload ''passengers'')"
  from assms(2,4,5) have f: "?final = Inr (body resp)"
    unfolding POST_gateway [OF assms(1)]
    by (auto simp: await_results_cases internal_error_def split: sum.splits)
  show ?thesis
  proof (cases "stdout = None \<or> stdout = Some JNull")
    case True
    with f have "demo_results (member payload ''origin'') (member payload ''destination'')
      (member payload ''departureDate'') (member payload ''returnDate'') (member payload ''passengers'')
        = Inr (body resp)"
      by (simp add: final_results_demo)
    then show ?thesis by (rule demo_results_total)
  next
    case False
    then obtain parsed where p: "stdout = Some parsed" "parsed \<noteq> JNull" by auto
    with assms(3) have "flights_of parsed = None" by simp
    from final_results_rewrap [OF p(2) this] f p(1)
    have "body resp = JObj [(''flights'', JArr (elements_of parsed)),
                (''total_results'', JNum (of_nat (length (elements_of parsed)))),
                (''search_params'', params_of payload)]"
      by (simp add: params_of_def)
    then show ?thesis by (simp add: flights_of_def)
  qed
qed

theorem total_results_is_length_witness:
  "(\<exists>fl. flights_of (body (fst (POST (lookup_prints None) (Some glasgow_chennai)))) = Some fl \<and>
      get_prop (body (fst (POST (lookup_prints None) (Some glasgow_chennai)))) ''total_results'' =
        Inr (Some (JNum (of_nat (length fl))))) \<and>
   http_status (fst (POST (lookup_prints None) (Some glasgow_chennai))) = 200"
proof -
  have g: "reaches_gateway glasgow_chennai"
    by (simp add: reaches_gateway_def glasgow_chennai_def member_def)
  have r: "lookup_prints None (searchData glasgow_chennai) = Closed (Some 0) None []"
    by (simp add: lookup_prints_def)
  have n: "\<forall>parsed. (None :: json option) = Some parsed \<longrightarrow> flights_of parsed = None" by simp
  have s: "http_status (fst (POST (lookup_prints None) (Some glasgow_chennai))) = 200"
    by code_simp
  have e: "POST (lookup_prints None) (Some glasgow_chennai) =
    (fst (POST (lookup_prints None) (Some glasgow_chennai)), snd (POST (lookup_prints None) (Some glasgow_chennai)))"
    by simp
  from total_results_is_length [OF g r n e s] s show ?thesis by blast
qed

end
